theory Spec2Isabelle
  imports Complex_Main
begin

section \<open>SunCheck: the checklist generator of server/routes.ts\<close>

text \<open>
  The development embeds \<^verbatim>\<open>generateChecklistItems\<close> and \<^verbatim>\<open>getStructureItems\<close> of
  \<^verbatim>\<open>server/routes.ts\<close>, together with the two places of \<^verbatim>\<open>registerRoutes\<close> that recompute
  the string configuration.

  Conventions of the embedding.
  \<^item> A JavaScript string is a \<^typ>\<open>string\<close> holding its UTF-8 bytes; the accented letters of the
    Portuguese texts are the two-byte constants below.
  \<^item> \<^verbatim>\<open>solarPanelsCount\<close> is an \<^typ>\<open>int\<close>: the column is an integer column and the route
    stores the project before it generates the checklist.
  \<^item> The result of \<^verbatim>\<open>parseFloat\<close> is a \<open>number\<close>: NaN, the two infinities or a finite
    binary64 value, kept as the rational it denotes. \<^verbatim>\<open>parseFloat\<close>, the product and the sum
    round to the nearest binary64 value, ties to even, as IEEE 754 prescribes; the text
    of a number is the shortest decimal that reads back as the same value. Negative zero
    is not kept apart from zero: the power is compared, clamped to 3 and printed only
    after the clamp.
  \<^item> The quantities computed from the panel count are integers: each is the ceiling of an
    integer times a short decimal constant, computed exactly. For panel counts of the
    validated range (1 to 200) the exact value and the binary64 one have the same ceiling.
\<close>

subsection \<open>Numbers and their decimal text\<close>

datatype number = NaN | PosInf | NegInf | Fin rat

text \<open>\<^verbatim>\<open>Math.max(a, b)\<close>: NaN wins, then the larger operand.\<close>

fun Math_max :: "number \<Rightarrow> number \<Rightarrow> number" where
  "Math_max NaN y = NaN"
| "Math_max x NaN = NaN"
| "Math_max PosInf y = PosInf"
| "Math_max x PosInf = PosInf"
| "Math_max NegInf y = y"
| "Math_max x NegInf = x"
| "Math_max (Fin a) (Fin b) = Fin (max a b)"

text \<open>The comparisons \<^verbatim>\<open>x < y\<close>, \<^verbatim>\<open>x > y\<close> and \<^verbatim>\<open>x <= y\<close>: false as soon as an operand is NaN.\<close>

fun js_lt :: "number \<Rightarrow> number \<Rightarrow> bool" where
  "js_lt NaN y = False"
| "js_lt x NaN = False"
| "js_lt PosInf y = False"
| "js_lt x NegInf = False"
| "js_lt NegInf y = True"
| "js_lt x PosInf = True"
| "js_lt (Fin a) (Fin b) = (a < b)"

definition js_gt :: "number \<Rightarrow> number \<Rightarrow> bool" where
  "js_gt x y = js_lt y x"

fun js_le :: "number \<Rightarrow> number \<Rightarrow> bool" where
  "js_le NaN y = False"
| "js_le x NaN = False"
| "js_le NegInf y = True"
| "js_le x PosInf = True"
| "js_le PosInf y = False"
| "js_le x NegInf = False"
| "js_le (Fin a) (Fin b) = (a \<le> b)"

subsection \<open>Rounding to binary64\<close>

text \<open>
  The binary64 value nearest to a positive fraction \<open>N / D\<close>. \<open>exponentOf\<close> is the binary
  exponent of the fraction, the integer part of its logarithm to base 2; the unit in the
  last place is \<open>2\<^sup>t\<close>, 52 binary places below the exponent, and the exponent is held at
  \<open>- 1022\<close> for subnormal values. The fraction is rounded to the nearest multiple of the
  unit, a tie going to the even multiple. A result of \<open>2\<^sup>1\<^sup>0\<^sup>2\<^sup>4\<close> or more is an infinity.
\<close>

function ilog2 :: "int \<Rightarrow> int" where
  "ilog2 n = (if n < 2 then 0 else ilog2 (n div 2) + 1)"
  by pat_completeness auto
termination
  by (relation "measure nat") auto

declare ilog2.simps [simp del]

definition exponentOf :: "int \<Rightarrow> int \<Rightarrow> int" where
  "exponentOf N D =
     (let e = ilog2 N - ilog2 D
      in if N * 2 ^ nat (- e) < D * 2 ^ nat e then e - 1 else e)"

definition roundHalfEven :: "int \<Rightarrow> int \<Rightarrow> int" where
  "roundHalfEven N D =
     (let q = N div D; r = N mod D
      in if 2 * r < D then q else if D < 2 * r then q + 1 else if even q then q else q + 1)"

definition nearest :: "int \<Rightarrow> int \<Rightarrow> rat" where
  "nearest N D =
     (if N = 0 then 0
      else (let t = max (exponentOf N D) (- 1022) - 52;
                m = roundHalfEven (N * 2 ^ nat (- t)) (D * 2 ^ nat t)
            in of_int m * 2 ^ nat t / 2 ^ nat (- t)))"

text \<open>The signed result, and the rounding of an arbitrary rational.\<close>

definition toNumber :: "bool \<Rightarrow> rat \<Rightarrow> number" where
  "toNumber neg m =
     (if 2 ^ 1024 \<le> m then (if neg then NegInf else PosInf)
      else Fin (if neg then - m else m))"

definition binary64 :: "rat \<Rightarrow> number" where
  "binary64 q = (case quotient_of q of (n, d) \<Rightarrow> toNumber (n < 0) (nearest \<bar>n\<bar> d))"

text \<open>
  \<^verbatim>\<open>x * y\<close> and \<^verbatim>\<open>x + y\<close>: the exact result rounded to binary64, with the IEEE rules for
  NaN and the infinities.
\<close>

fun js_mul :: "number \<Rightarrow> number \<Rightarrow> number" where
  "js_mul NaN y = NaN"
| "js_mul x NaN = NaN"
| "js_mul (Fin a) (Fin b) = binary64 (a * b)"
| "js_mul (Fin a) PosInf = (if a = 0 then NaN else if 0 < a then PosInf else NegInf)"
| "js_mul (Fin a) NegInf = (if a = 0 then NaN else if 0 < a then NegInf else PosInf)"
| "js_mul PosInf (Fin b) = (if b = 0 then NaN else if 0 < b then PosInf else NegInf)"
| "js_mul NegInf (Fin b) = (if b = 0 then NaN else if 0 < b then NegInf else PosInf)"
| "js_mul PosInf PosInf = PosInf"
| "js_mul NegInf NegInf = PosInf"
| "js_mul PosInf NegInf = NegInf"
| "js_mul NegInf PosInf = NegInf"

fun js_add :: "number \<Rightarrow> number \<Rightarrow> number" where
  "js_add NaN y = NaN"
| "js_add x NaN = NaN"
| "js_add (Fin a) (Fin b) = binary64 (a + b)"
| "js_add PosInf NegInf = NaN"
| "js_add NegInf PosInf = NaN"
| "js_add PosInf y = PosInf"
| "js_add NegInf y = NegInf"
| "js_add x PosInf = PosInf"
| "js_add x NegInf = NegInf"

text \<open>\<^verbatim>\<open>Math.ceil\<close> on a \<open>number\<close>, and on the exact value of an integer expression.\<close>

fun Math_ceil :: "number \<Rightarrow> number" where
  "Math_ceil (Fin a) = Fin (of_int \<lceil>a\<rceil>)"
| "Math_ceil x = x"

definition ceil :: "rat \<Rightarrow> int" where
  "ceil q = \<lceil>q\<rceil>"

text \<open>Decimal digits of a natural number, most significant first.\<close>

fun digits :: "nat \<Rightarrow> string" where
  "digits n = (if n < 10 then [char_of (48 + n)]
               else digits (n div 10) @ [char_of (48 + n mod 10)])"

declare digits.simps [simp del]

text \<open>
  The text of an integer in a template literal: an optional minus sign and the digits, as
  JavaScript prints an integer of magnitude below \<open>10\<^sup>2\<^sup>1\<close>.
\<close>

definition toString :: "int \<Rightarrow> string" where
  "toString i = (if i < 0 then CHR ''-'' # digits (nat (- i)) else digits (nat i))"

subsection \<open>The text of a number\<close>

text \<open>
  \<^verbatim>\<open>Number::toString\<close> of ECMAScript: for a positive value \<open>x\<close> take the digit count \<open>k\<close>,
  the \<open>k\<close>-digit integer \<open>s\<close> and the position \<open>n\<close> such that \<open>s\<close> times ten to the \<open>n - k\<close>
  rounds to \<open>x\<close>, with \<open>k\<close> as small as possible and, among several \<open>s\<close>, the one closest
  to \<open>x\<close> (the even one on a tie). \<open>magnitude\<close> is the position of \<open>x\<close> itself, the number
  of digits before its decimal point; \<open>shortest\<close> tries \<open>k = 1, 2, \<dots>\<close> with the two
  \<open>k\<close>-digit decimals around \<open>x\<close>. Seventeen digits always suffice for a binary64 value,
  which bounds the search.
\<close>

function ilog10 :: "int \<Rightarrow> int" where
  "ilog10 n = (if n < 10 then 0 else ilog10 (n div 10) + 1)"
  by pat_completeness auto
termination
  by (relation "measure nat") auto

declare ilog10.simps [simp del]

function decimalDigits :: "int \<Rightarrow> string" where
  "decimalDigits n = (if n < 10 then [char_of (48 + n)]
                      else decimalDigits (n div 10) @ [char_of (48 + n mod 10)])"
  by pat_completeness auto
termination
  by (relation "measure nat") auto

declare decimalDigits.simps [simp del]

definition magnitude :: "int \<Rightarrow> int \<Rightarrow> int" where
  "magnitude N D =
     (let e = ilog10 N - ilog10 D
      in if N * 10 ^ nat (- e) < D * 10 ^ nat e then e else e + 1)"

definition decimal :: "int \<Rightarrow> int \<Rightarrow> rat" where
  "decimal s t = of_int s * 10 ^ nat t / 10 ^ nat (- t)"

definition roundsTo :: "rat \<Rightarrow> int \<Rightarrow> int \<Rightarrow> bool" where
  "roundsTo x s t = (nearest (s * 10 ^ nat t) (10 ^ nat (- t)) = x)"

fun shortest :: "nat \<Rightarrow> nat \<Rightarrow> int \<Rightarrow> int \<Rightarrow> int \<Rightarrow> int \<times> int" where
  "shortest 0 k N D n = ((N * 10 ^ nat (int k - n)) div (D * 10 ^ nat (n - int k)), n)"
| "shortest (Suc fuel) k N D n =
     (let t = n - int k;
          x = of_int N / of_int D;
          lo = (N * 10 ^ nat (- t)) div (D * 10 ^ nat t);
          hi = lo + 1;
          up = (if hi = 10 ^ k then (10 ^ (k - 1), n + 1) else (hi, n))
      in if roundsTo x lo t \<and> roundsTo x hi t then
           (if x - decimal lo t < decimal hi t - x then (lo, n)
            else if decimal hi t - x < x - decimal lo t then up
            else if even lo then (lo, n) else up)
         else if roundsTo x lo t then (lo, n)
         else if roundsTo x hi t then up
         else shortest fuel (Suc k) N D n)"

text \<open>
  The digits are laid out positionally when \<open>- 6 < n \<le> 21\<close> and in exponent notation
  otherwise.
\<close>

definition formatDecimal :: "int \<Rightarrow> int \<Rightarrow> string" where
  "formatDecimal s n =
     (let ds = decimalDigits s; k = int (length ds)
      in if k \<le> n \<and> n \<le> 21 then ds @ replicate (nat (n - k)) CHR ''0''
         else if 0 < n \<and> n \<le> 21 then take (nat n) ds @ ''.'' @ drop (nat n) ds
         else if - 6 < n \<and> n \<le> 0 then ''0.'' @ replicate (nat (- n)) CHR ''0'' @ ds
         else (let e = n - 1;
                   es = (if e < 0 then ''-'' else ''+'') @ decimalDigits \<bar>e\<bar>
               in if k = 1 then ds @ ''e'' @ es
                  else take 1 ds @ ''.'' @ drop 1 ds @ ''e'' @ es))"

definition positive :: "rat \<Rightarrow> string" where
  "positive x =
     (case quotient_of x of
        (n, d) \<Rightarrow>
          (case shortest 17 1 n d (magnitude n d) of
             (s, m) \<Rightarrow> formatDecimal s m))"

fun numberToString :: "number \<Rightarrow> string" where
  "numberToString NaN = ''NaN''"
| "numberToString PosInf = ''Infinity''"
| "numberToString NegInf = ''-Infinity''"
| "numberToString (Fin q) =
     (if q = 0 then ''0'' else if q < 0 then CHR ''-'' # positive (- q) else positive q)"

subsection \<open>parseFloat\<close>

text \<open>
  \<^verbatim>\<open>parseFloat\<close> skips leading white space, reads the longest prefix that is a decimal
  literal (sign, \<^verbatim>\<open>Infinity\<close> or digits with an optional fraction and exponent) and ignores
  the rest; without such a prefix the result is NaN. The result is the binary64 value
  nearest to the value of the literal.

  White space is the white space and the line terminators of ECMAScript, in UTF-8: the
  six ASCII characters, U+00A0, U+1680, U+2000 to U+200A, U+2028, U+2029, U+202F, U+205F,
  U+3000 and U+FEFF.
\<close>

fun skipWhiteSpace :: "string \<Rightarrow> string" where
  "skipWhiteSpace [] = []"
| "skipWhiteSpace (a # s) =
     (if a \<in> set [CHR 0x09, CHR 0x0A, CHR 0x0B, CHR 0x0C, CHR 0x0D, CHR 0x20]
      then skipWhiteSpace s
      else if a = CHR 0xC2 \<and> take 1 s = [CHR 0xA0] then skipWhiteSpace (drop 1 s)
      else if [a] @ take 2 s \<in> set
           [[CHR 0xE1, CHR 0x9A, CHR 0x80], [CHR 0xE2, CHR 0x80, CHR 0x80],
            [CHR 0xE2, CHR 0x80, CHR 0x81], [CHR 0xE2, CHR 0x80, CHR 0x82],
            [CHR 0xE2, CHR 0x80, CHR 0x83], [CHR 0xE2, CHR 0x80, CHR 0x84],
            [CHR 0xE2, CHR 0x80, CHR 0x85], [CHR 0xE2, CHR 0x80, CHR 0x86],
            [CHR 0xE2, CHR 0x80, CHR 0x87], [CHR 0xE2, CHR 0x80, CHR 0x88],
            [CHR 0xE2, CHR 0x80, CHR 0x89], [CHR 0xE2, CHR 0x80, CHR 0x8A],
            [CHR 0xE2, CHR 0x80, CHR 0xA8], [CHR 0xE2, CHR 0x80, CHR 0xA9],
            [CHR 0xE2, CHR 0x80, CHR 0xAF], [CHR 0xE2, CHR 0x81, CHR 0x9F],
            [CHR 0xE3, CHR 0x80, CHR 0x80], [CHR 0xEF, CHR 0xBB, CHR 0xBF]]
      then skipWhiteSpace (drop 2 s)
      else a # s)"

definition isDigit :: "char \<Rightarrow> bool" where
  "isDigit c = (c \<in> set ''0123456789'')"

definition digitValue :: "char \<Rightarrow> int" where
  "digitValue c = of_char c - 48"

definition decimalValue :: "string \<Rightarrow> int" where
  "decimalValue s = foldl (\<lambda>a c. 10 * a + digitValue c) 0 s"

text \<open>An exponent part counts only when a digit follows the \<^verbatim>\<open>e\<close> and its optional sign.\<close>

definition exponentPart :: "string \<Rightarrow> int" where
  "exponentPart s =
     (case s of
        [] \<Rightarrow> 0
      | c # r \<Rightarrow>
          if c = CHR ''e'' \<or> c = CHR ''E'' then
            (case r of
               [] \<Rightarrow> 0
             | d # r' \<Rightarrow>
                 if d = CHR ''-'' then - decimalValue (takeWhile isDigit r')
                 else if d = CHR ''+'' then decimalValue (takeWhile isDigit r')
                 else decimalValue (takeWhile isDigit r))
          else 0)"

definition parseFloat :: "string \<Rightarrow> number" where
  "parseFloat s =
     (let t = skipWhiteSpace s;
          neg = (t \<noteq> [] \<and> hd t = CHR ''-'');
          u = (if t \<noteq> [] \<and> (hd t = CHR ''-'' \<or> hd t = CHR ''+'') then tl t else t)
      in if take 8 u = ''Infinity'' then (if neg then NegInf else PosInf)
         else
           (let ip = takeWhile isDigit u;
                r = dropWhile isDigit u;
                hasDot = (r \<noteq> [] \<and> hd r = CHR ''.'');
                fp = (if hasDot then takeWhile isDigit (tl r) else []);
                r' = (if hasDot then dropWhile isDigit (tl r) else r)
            in if ip = [] \<and> fp = [] then NaN
               else
                 (let e = exponentPart r' - int (length fp);
                      m = decimalValue (ip @ fp)
                  in toNumber neg (nearest (m * 10 ^ nat e) (10 ^ nat (- e))))))"

subsection \<open>Checklist items and the accented letters of their texts\<close>

record checklistItem =
  title :: string
  description :: string
  category :: string

definition deg :: string where "deg = [CHR 0xC2, CHR 0xB0]"
definition sup2 :: string where "sup2 = [CHR 0xC2, CHR 0xB2]"
definition aacute :: string where "aacute = [CHR 0xC3, CHR 0xA1]"
definition acirc :: string where "acirc = [CHR 0xC3, CHR 0xA2]"
definition atilde :: string where "atilde = [CHR 0xC3, CHR 0xA3]"
definition ccedil :: string where "ccedil = [CHR 0xC3, CHR 0xA7]"
definition eacute :: string where "eacute = [CHR 0xC3, CHR 0xA9]"
definition iacute :: string where "iacute = [CHR 0xC3, CHR 0xAD]"
definition otilde :: string where "otilde = [CHR 0xC3, CHR 0xB5]"

subsection \<open>getStructureItems\<close>

text \<open>
  The structure items of a roof type. The only call passes all three arguments, with
  \<^verbatim>\<open>numberOfStrings\<close> 2 or 3, so the default value of the third parameter and a division
  by zero do not arise. A roof type outside the four cases gives the empty list.
\<close>

definition getStructureItems :: "string \<Rightarrow> int \<Rightarrow> int \<Rightarrow> checklistItem list" where
  "getStructureItems roofType panelCount numberOfStrings =
     (let panelsPerRow = ceil (of_int panelCount / of_int numberOfStrings);
          railLength = ceil (of_int panelsPerRow * 2.1);
          totalRailLength = railLength * numberOfStrings;
          fixationPoints = ceil (of_int panelCount * 1.2)
      in if roofType = ''ceramico'' then
           [\<lparr>title = ''Ganchos para Telha Cer'' @ acirc @ ''mica ('' @ toString fixationPoints @ '' un)'',
             description = ''Ganchos ajust'' @ aacute @ ''veis em a'' @ ccedil @ ''o inox 316 para telhas cer'' @ acirc @ ''micas, com veda'' @ ccedil @ atilde @ ''o EPDM dupla, suporte para '' @ toString numberOfStrings @ '' fileiras'',
             category = ''estrutura''\<rparr>,
            \<lparr>title = ''Trilhos de Alum'' @ iacute @ ''nio Anodizado ('' @ toString totalRailLength @ ''m)'',
             description = ''Trilhos 40x40mm para '' @ toString numberOfStrings @ '' strings de '' @ toString panelsPerRow @ '' pain'' @ eacute @ ''is, incluindo emendas, terminais e reguladores'',
             category = ''estrutura''\<rparr>,
            \<lparr>title = ''Grampos de Fixa'' @ ccedil @ atilde @ ''o ('' @ toString (panelCount * 2) @ '' un)'',
             description = toString (ceil (of_int panelCount * 0.2)) @ '' grampos terminais + '' @ toString (ceil (of_int panelCount * 1.8)) @ '' intermedi'' @ aacute @ ''rios, alum'' @ iacute @ ''nio anodizado'',
             category = ''estrutura''\<rparr>,
            \<lparr>title = ''Kit de Fixa'' @ ccedil @ atilde @ ''o Cer'' @ acirc @ ''mica ('' @ toString fixationPoints @ '' kits)'',
             description = ''Parafusos M8x80, buchas S8, arruelas e veda'' @ ccedil @ otilde @ ''es EPDM para fixa'' @ ccedil @ atilde @ ''o em estrutura cer'' @ acirc @ ''mica'',
             category = ''estrutura''\<rparr>]
         else if roofType = ''metalico'' then
           [\<lparr>title = ''Grampos Trapezoidais ('' @ toString (ceil (of_int fixationPoints * 0.7)) @ '' un)'',
             description = ''Grampos para telha trapezoidal/zipada, adequados para '' @ toString numberOfStrings @ '' fileiras, com veda'' @ ccedil @ atilde @ ''o dupla EPDM'',
             category = ''estrutura''\<rparr>,
            \<lparr>title = ''Trilhos de Alum'' @ iacute @ ''nio Anodizado ('' @ toString totalRailLength @ ''m)'',
             description = ''Sistema de trilhos 40x40mm para estrutura met'' @ aacute @ ''lica, '' @ toString numberOfStrings @ '' strings, com conectores e terminais'',
             category = ''estrutura''\<rparr>,
            \<lparr>title = ''Grampos de Fixa'' @ ccedil @ atilde @ ''o ('' @ toString (panelCount * 2) @ '' un)'',
             description = ''Grampos terminais e intermedi'' @ aacute @ ''rios para fixa'' @ ccedil @ atilde @ ''o de '' @ toString panelCount @ '' pain'' @ eacute @ ''is em '' @ toString numberOfStrings @ '' strings'',
             category = ''estrutura''\<rparr>,
            \<lparr>title = ''Parafusos Autoperfurantes ('' @ toString (fixationPoints * 2) @ '' un)'',
             description = ''Parafusos 12x80mm com veda'' @ ccedil @ atilde @ ''o EPDM, brocas adequadas para perfil met'' @ aacute @ ''lico'',
             category = ''estrutura''\<rparr>]
         else if roofType = ''fibrocimento'' then
           [\<lparr>title = ''Ganchos para Telha Fibrocimento ('' @ toString fixationPoints @ '' un)'',
             description = ''Ganchos espec'' @ iacute @ ''ficos para telhas de fibrocimento/Brasilit, em a'' @ ccedil @ ''o galvanizado, com veda'' @ ccedil @ atilde @ ''o EPDM refor'' @ ccedil @ ''ada para '' @ toString numberOfStrings @ '' fileiras'',
             category = ''estrutura''\<rparr>,
            \<lparr>title = ''Trilhos de Alum'' @ iacute @ ''nio Anodizado ('' @ toString totalRailLength @ ''m)'',
             description = ''Sistema de trilhos 40x40mm refor'' @ ccedil @ ''ado para fibrocimento, '' @ toString numberOfStrings @ '' strings de '' @ toString panelsPerRow @ '' pain'' @ eacute @ ''is, com conectores especiais'',
             category = ''estrutura''\<rparr>,
            \<lparr>title = ''Grampos de Fixa'' @ ccedil @ atilde @ ''o ('' @ toString (panelCount * 2) @ '' un)'',
             description = ''Grampos terminais e intermedi'' @ aacute @ ''rios em alum'' @ iacute @ ''nio anodizado, adequados para carga de vento em fibrocimento'',
             category = ''estrutura''\<rparr>,
            \<lparr>title = ''Kit de Fixa'' @ ccedil @ atilde @ ''o Fibrocimento ('' @ toString fixationPoints @ '' kits)'',
             description = ''Parafusos autoperfurantes 12x100mm, buchas especiais, arruelas met'' @ aacute @ ''licas e veda'' @ ccedil @ otilde @ ''es EPDM duplas para telhas de fibrocimento'',
             category = ''estrutura''\<rparr>,
            \<lparr>title = ''Refor'' @ ccedil @ ''o Estrutural'',
             description = toString (ceil (of_int fixationPoints * 0.3)) @ '' perfis de refor'' @ ccedil @ ''o interno em a'' @ ccedil @ ''o galvanizado para distribui'' @ ccedil @ atilde @ ''o de cargas em telhas fibrocimento'',
             category = ''estrutura''\<rparr>]
         else if roofType = ''solo'' then
           (let foundationPoints = ceil (of_int numberOfStrings * 2)
            in [\<lparr>title = ''Estrutura Solo Fixa ('' @ toString (ceil (of_int panelCount / 6)) @ '' kits)'',
                 description = ''Sistema de estrutura fixa para solo, cada kit comporta 6 pain'' @ eacute @ ''is, inclina'' @ ccedil @ atilde @ ''o 20'' @ deg @ '', para '' @ toString numberOfStrings @ '' strings'',
                 category = ''estrutura''\<rparr>,
                \<lparr>title = ''Funda'' @ ccedil @ otilde @ ''es de Concreto ('' @ toString foundationPoints @ '' un)'',
                 description = ''Blocos de funda'' @ ccedil @ atilde @ ''o 40x40x60cm ou estacas h'' @ eacute @ ''lice cont'' @ iacute @ ''nua, adequadas para '' @ toString panelCount @ '' pain'' @ eacute @ ''is'',
                 category = ''estrutura''\<rparr>,
                \<lparr>title = ''Kit de Ancoragem ('' @ toString foundationPoints @ '' kits)'',
                 description = ''Chumbadores M16x200mm, porcas, arruelas e graute para fixa'' @ ccedil @ atilde @ ''o da estrutura nas funda'' @ ccedil @ otilde @ ''es'',
                 category = ''estrutura''\<rparr>,
                \<lparr>title = ''Sistema de Aterramento Solo'',
                 description = ''Malha de aterramento com '' @ toString foundationPoints @ '' hastes cobreadas interligadas, cabo nu 25mm'' @ sup2,
                 category = ''estrutura''\<rparr>])
         else [])"

subsection \<open>The string configuration\<close>

text \<open>
  The three locals of lines 22 to 30 of \<^verbatim>\<open>generateChecklistItems\<close>: set to the defaults,
  then overwritten together when there are more than 8 panels.
\<close>

record strings =
  stringConfig :: string
  numberOfStrings :: int
  panelsPerString :: int

definition stringConfiguration :: "int \<Rightarrow> strings" where
  "stringConfiguration solarPanelsCount =
     (let s = \<lparr>stringConfig = ''2x2'', numberOfStrings = 2,
                panelsPerString = ceil (of_int solarPanelsCount / 2)\<rparr>
      in if solarPanelsCount > 8
         then s\<lparr>stringConfig := ''3x3'', numberOfStrings := 3,
                panelsPerString := ceil (of_int solarPanelsCount / 3)\<rparr>
         else s)"

text \<open>The breaker rating of lines 54 to 56: two assignments in sequence.\<close>

definition breakerCurrent :: "number \<Rightarrow> int" where
  "breakerCurrent adjustedPower =
     (let b = 32;
          b = (if js_gt adjustedPower (Fin 5) then 40 else b);
          b = (if js_gt adjustedPower (Fin 8) then 50 else b)
      in b)"

subsection \<open>Projects\<close>

text \<open>
  The project data of the insert schema. The generator is written for any object
  (\<^verbatim>\<open>projectData: any\<close>), so the record is left extensible.
\<close>

record project =
  name :: string
  address :: "string option"
  phone :: "string option"
  roofType :: string
  inverterPower :: string
  inverterBrand :: "string option"
  solarPanelsCount :: int
  installationDate :: "string option"
  installer :: "string option"
  platformLogin :: "string option"
  platformPassword :: "string option"
  platformUrl :: "string option"
  platformNotes :: "string option"
  status :: "string option"

subsection \<open>generateChecklistItems\<close>

text \<open>
  The generator reads three fields of the project, parses the inverter power, and pushes
  the safety item, the six electrical items and the structure items onto \<^verbatim>\<open>items\<close>, in
  this order. Each \<^verbatim>\<open>push\<close> appends to the list built so far.
\<close>

definition generateChecklistItems :: "'a project_scheme \<Rightarrow> checklistItem list" where
  "generateChecklistItems projectData =
     (let power = parseFloat (inverterPower projectData);
          panelPower = 550;
          totalPanelPower = (of_int (solarPanelsCount projectData) * panelPower) / 1000;
          minimumInverterPower = Fin 3.0;
          adjustedPower = Math_max power minimumInverterPower;
          s = stringConfiguration (solarPanelsCount projectData);
          stringCurrent = panelPower / 40;
          items = [];
          items = items @
            [\<lparr>title = ''Sistema de Aterramento Equipotencial'',
              description = ''Hastes cobreadas 2,4m ('' @ toString (ceil (of_int (numberOfStrings s) * 0.5)) @ '' un), cabo nu 16mm'' @ sup2 @ '' ('' @ toString (ceil (of_int (solarPanelsCount projectData) * 2)) @ ''m), conectores de aterramento'',
              category = ''seguranca''\<rparr>];
          ccCableLength = ceil (of_int (solarPanelsCount projectData) * 4.5);
          caCableLength = Math_ceil (js_add (js_mul adjustedPower (Fin 2.5)) (Fin 10));
          mc4Connectors = max 3 (ceil (of_int (numberOfStrings s + 1)));
          caCableSection = ''6mm'' @ sup2;
          items = items @
            [\<lparr>title = ''Cabo Solar CC 6mm'' @ sup2 @ '' ('' @ toString ccCableLength @ ''m)'',
              description = toString (ceil (of_int ccCableLength / 2)) @ ''m vermelho + '' @ toString (ceil (of_int ccCableLength / 2)) @ ''m preto, cabo solar 6mm'' @ sup2 @ '' dupla isola'' @ ccedil @ atilde @ ''o para configura'' @ ccedil @ atilde @ ''o '' @ stringConfig s,
              category = ''materiais_eletricos''\<rparr>,
             \<lparr>title = ''Conectores MC4 ('' @ toString mc4Connectors @ '' pares)'',
              description = ''Conectores MC4 originais: 1 par no telhado (interliga'' @ ccedil @ atilde @ ''o strings) + 2 pares no inversor (entrada CC)'',
              category = ''materiais_eletricos''\<rparr>,
             \<lparr>title = ''String Box CC '' @ toString (numberOfStrings s) @ ''x1'',
              description = ''Caixa de prote'' @ ccedil @ atilde @ ''o CC para configura'' @ ccedil @ atilde @ ''o '' @ stringConfig s @ '', fus'' @ iacute @ ''veis '' @ toString (ceil (stringCurrent * 1.25)) @ ''A, DPS CC Tipo II'',
              category = ''materiais_eletricos''\<rparr>,
             \<lparr>title = ''Cabo CA '' @ caCableSection @ '' ('' @ numberToString caCableLength @ ''m)'',
              description = ''Cabo multipolar '' @ caCableSection @ '' para '' @ numberToString adjustedPower @ ''kW (m'' @ iacute @ ''nimo 3kW), isola'' @ ccedil @ atilde @ ''o 0,6/1kV, conex'' @ atilde @ ''o inversor-quadro CA'',
              category = ''materiais_eletricos''\<rparr>,
             \<lparr>title = ''Disjuntor CA '' @ toString (breakerCurrent adjustedPower) @ ''A'',
              description = ''Disjuntor tripolar '' @ toString (breakerCurrent adjustedPower) @ ''A (padr'' @ atilde @ ''o '' @ toString (breakerCurrent adjustedPower) @ ''A), curva C, 6kA, para prote'' @ ccedil @ atilde @ ''o do circuito CA'',
              category = ''materiais_eletricos''\<rparr>,
             \<lparr>title = ''DPS CA Classe II'',
              description = ''Dispositivo de prote'' @ ccedil @ atilde @ ''o contra surtos CA, '' @ (if js_le adjustedPower (Fin 5) then ''20kA'' else if js_le adjustedPower (Fin 15) then ''40kA'' else ''60kA'') @ '', adequado para '' @ numberToString adjustedPower @ ''kW'',
              category = ''materiais_eletricos''\<rparr>];
          structureItems = getStructureItems (roofType projectData) (solarPanelsCount projectData) (numberOfStrings s);
          items = items @ structureItems
      in items)"

subsection \<open>The string configuration in the analysis and report routes\<close>

text \<open>
  \<^verbatim>\<open>POST /api/projects/:id/analyze\<close> and \<^verbatim>\<open>POST /api/projects/:id/report\<close> each determine
  the string configuration of the stored project before they call the analysis.
\<close>

definition analyzeStringConfig :: "'a project_scheme \<Rightarrow> string" where
  "analyzeStringConfig project =
     (let c = ''2x2'' in if solarPanelsCount project > 8 then ''3x3'' else c)"

definition reportStringConfig :: "'a project_scheme \<Rightarrow> string" where
  "reportStringConfig project =
     (let c = ''2x2'' in if solarPanelsCount project > 8 then ''3x3'' else c)"

subsection \<open>Example projects\<close>

text \<open>
  Three projects with the inputs of the example scenarios: 6 panels at 3.3 kW on a ceramic
  roof, 12 panels at 6.0 kW on the ground, 20 panels at 11.0 kW on a metal roof.
\<close>

definition scenario1 :: project where
  "scenario1 =
     \<lparr>name = ''Projeto Solar'', address = None, phone = None, roofType = ''ceramico'',
      inverterPower = ''3.3'', inverterBrand = None, solarPanelsCount = 6,
      installationDate = None, installer = None, platformLogin = None,
      platformPassword = None, platformUrl = None, platformNotes = None, status = None\<rparr>"

definition scenario2 :: project where
  "scenario2 = scenario1\<lparr>roofType := ''solo'', inverterPower := ''6.0'', solarPanelsCount := 12\<rparr>"

definition scenario3 :: project where
  "scenario3 = scenario1\<lparr>roofType := ''metalico'', inverterPower := ''11.0'', solarPanelsCount := 20\<rparr>"

section \<open>Properties\<close>

subsection \<open>Evaluation and shape of the generated list\<close>

lemmas parse_simps =
  parseFloat_def isDigit_def exponentPart_def decimalValue_def digitValue_def
  toNumber_def nearest_def exponentOf_def roundHalfEven_def ilog2.simps Let_def

lemmas scenario_simps = scenario1_def scenario2_def scenario3_def

lemma parseFloat_examples:
  "parseFloat ''3.0'' = Fin 3"
  "parseFloat ''3.3'' = Fin (3715469692580659 / 1125899906842624)"
  "parseFloat ''3.30'' = Fin (3715469692580659 / 1125899906842624)"
  "parseFloat ''2.5'' = Fin 2.5"
  "parseFloat ''6.0'' = Fin 6"
  "parseFloat ''11.0'' = Fin 11"
  "parseFloat ''5.0000000000000001'' = Fin 5"
  "parseFloat ''8.0000000000000001'' = Fin 8"
  by (simp_all add: parse_simps)

text \<open>
  Rounding at work: a no-break space before the literal is skipped; the text of the value
  read from \<^verbatim>\<open>3.3\<close> is \<^verbatim>\<open>3.3\<close> again; and for \<^verbatim>\<open>4.0000000000000009\<close> the product with 2.5
  and the sum with 10 round to 20 exactly, so the cable length is 20 and not 21.
\<close>

lemma parseFloat_white_space: "parseFloat ([CHR 0xC2, CHR 0xA0] @ ''5.5'') = Fin 5.5"
  by (simp add: parse_simps)

lemma numberToString_example: "numberToString (parseFloat ''3.3'') = ''3.3''"
  by code_simp

lemma cable_length_rounding:
  "Math_ceil (js_add (js_mul (parseFloat ''4.0000000000000009'') (Fin 2.5)) (Fin 10)) = Fin 20"
  by code_simp

lemma toString_examples:
  "toString 2 = ''2''" "toString 3 = ''3''" "toString 17 = ''17''" "toString 24 = ''24''"
  "toString 32 = ''32''" "toString 40 = ''40''" "toString 48 = ''48''" "toString 50 = ''50''"
  by code_simp+

lemma Math_max_floor: "js_lt x (Fin 3) \<Longrightarrow> Math_max x (Fin 3) = Fin 3"
  by (cases x) auto

lemma drop_generate:
  "drop 7 (generateChecklistItems p) =
     getStructureItems (roofType p) (solarPanelsCount p)
       (numberOfStrings (stringConfiguration (solarPanelsCount p)))"
  by (simp add: generateChecklistItems_def Let_def)

lemma length_generate:
  "length (generateChecklistItems p) =
     7 + length (getStructureItems (roofType p) (solarPanelsCount p)
       (numberOfStrings (stringConfiguration (solarPanelsCount p))))"
  by (simp add: generateChecklistItems_def Let_def)

lemma category_structure:
  "map category (getStructureItems r n k) =
     replicate (length (getStructureItems r n k)) ''estrutura''"
  by (simp add: getStructureItems_def Let_def numeral_eq_Suc)

lemma category_generate:
  "map category (generateChecklistItems p) =
     ''seguranca'' # replicate 6 ''materiais_eletricos'' @
     replicate (length (generateChecklistItems p) - 7) ''estrutura''"
proof -
  have "map category (generateChecklistItems p) =
      map category (take 7 (generateChecklistItems p)) @
      map category (drop 7 (generateChecklistItems p))"
    by (simp flip: map_append)
  moreover have "map category (take 7 (generateChecklistItems p)) =
      ''seguranca'' # replicate 6 ''materiais_eletricos''"
    by (simp add: generateChecklistItems_def Let_def numeral_eq_Suc)
  ultimately show ?thesis
    by (simp add: drop_generate category_structure length_generate)
qed

lemma category_nth:
  assumes "i < length (generateChecklistItems p)"
  shows "category (generateChecklistItems p ! i) =
     (if i = 0 then ''seguranca'' else if i < 7 then ''materiais_eletricos'' else ''estrutura'')"
proof -
  have "category (generateChecklistItems p ! i) = map category (generateChecklistItems p) ! i"
    using assms by simp
  also have "\<dots> = (''seguranca'' # replicate 6 ''materiais_eletricos'' @
     replicate (length (generateChecklistItems p) - 7) ''estrutura'') ! i"
    using category_generate [of p] by simp
  also have "\<dots> = (if i = 0 then ''seguranca'' else if i < 7 then ''materiais_eletricos'' else ''estrutura'')"
    using assms by (auto simp: nth_Cons' nth_append)
  finally show ?thesis .
qed

lemma length_structure:
  "length (getStructureItems r n k) =
     (if r = ''fibrocimento'' then 5
      else if r \<in> {''ceramico'', ''metalico'', ''solo''} then 4 else 0)"
  by (simp add: getStructureItems_def Let_def)

lemma string_box_title:
  "title (generateChecklistItems p ! 3) =
     ''String Box CC '' @ toString (numberOfStrings (stringConfiguration (solarPanelsCount p))) @ ''x1''"
  by (simp add: generateChecklistItems_def Let_def)

lemma breaker_title:
  "title (generateChecklistItems p ! 5) =
     ''Disjuntor CA '' @
     toString (breakerCurrent (Math_max (parseFloat (inverterPower p)) (Fin 3))) @ ''A''"
  by (simp add: generateChecklistItems_def Let_def)

lemma breakerCurrent_eq:
  "breakerCurrent a = (if js_gt a (Fin 8) then 50 else if js_gt a (Fin 5) then 40 else 32)"
  by (simp add: breakerCurrent_def Let_def)

subsection \<open>The claims\<close>

text \<open>
  Claim C1 (determinism). The generated checklist is a function of the triple panel count,
  inverter power as a number, and roof type: two projects that agree on the triple, whatever
  the text of the power and whatever their other fields, get the same items, with the same
  titles, descriptions and categories, in the same order.
\<close>

theorem generate_deterministic:
  fixes p :: "'a project_scheme" and q :: "'b project_scheme"
  assumes "solarPanelsCount p = solarPanelsCount q"
    and "parseFloat (inverterPower p) = parseFloat (inverterPower q)"
    and "roofType p = roofType q"
  shows "generateChecklistItems p = generateChecklistItems q \<and>
    map title (generateChecklistItems p) = map title (generateChecklistItems q) \<and>
    map description (generateChecklistItems p) = map description (generateChecklistItems q) \<and>
    map category (generateChecklistItems p) = map category (generateChecklistItems q)"
proof -
  have "generateChecklistItems p = generateChecklistItems q"
    unfolding generateChecklistItems_def using assms by simp
  then show ?thesis by simp
qed

theorem generate_deterministic_witness:
  "solarPanelsCount scenario1 = solarPanelsCount (scenario1\<lparr>name := ''B'', inverterPower := ''3.30''\<rparr>) \<and>
   parseFloat (inverterPower scenario1) =
     parseFloat (inverterPower (scenario1\<lparr>name := ''B'', inverterPower := ''3.30''\<rparr>)) \<and>
   roofType scenario1 = roofType (scenario1\<lparr>name := ''B'', inverterPower := ''3.30''\<rparr>) \<and>
   generateChecklistItems scenario1 =
     generateChecklistItems (scenario1\<lparr>name := ''B'', inverterPower := ''3.30''\<rparr>)"
  using generate_deterministic [of scenario1 "scenario1\<lparr>name := ''B'', inverterPower := ''3.30''\<rparr>"]
  by (simp add: scenario1_def parseFloat_examples)

text \<open>
  Claim C2 (string-count threshold). With 1 to 8 panels the generator works with 2 strings
  and the configuration \<^verbatim>\<open>2x2\<close>, with 9 to 200 panels with 3 strings and \<^verbatim>\<open>3x3\<close>; in both
  cases the panels per string are the ceiling of the panel count divided by the number of
  strings. The number of strings is the one printed in the title of the string box and the
  one handed to \<^verbatim>\<open>getStructureItems\<close>.
\<close>

theorem string_count_threshold:
  "(1 \<le> solarPanelsCount p \<and> solarPanelsCount p \<le> 8 \<longrightarrow>
      numberOfStrings (stringConfiguration (solarPanelsCount p)) = 2 \<and>
      stringConfig (stringConfiguration (solarPanelsCount p)) = ''2x2'' \<and>
      title (generateChecklistItems p ! 3) = ''String Box CC 2x1'') \<and>
   (9 \<le> solarPanelsCount p \<and> solarPanelsCount p \<le> 200 \<longrightarrow>
      numberOfStrings (stringConfiguration (solarPanelsCount p)) = 3 \<and>
      stringConfig (stringConfiguration (solarPanelsCount p)) = ''3x3'' \<and>
      title (generateChecklistItems p ! 3) = ''String Box CC 3x1'') \<and>
   panelsPerString (stringConfiguration (solarPanelsCount p)) =
     \<lceil>rat_of_int (solarPanelsCount p) /
       rat_of_int (numberOfStrings (stringConfiguration (solarPanelsCount p)))\<rceil> \<and>
   drop 7 (generateChecklistItems p) =
     getStructureItems (roofType p) (solarPanelsCount p)
       (numberOfStrings (stringConfiguration (solarPanelsCount p)))"
  by (simp add: string_box_title drop_generate stringConfiguration_def Let_def ceil_def
      toString_examples)

theorem string_count_threshold_witness:
  "1 \<le> solarPanelsCount scenario1 \<and> solarPanelsCount scenario1 \<le> 8 \<and>
   numberOfStrings (stringConfiguration (solarPanelsCount scenario1)) = 2 \<and>
   stringConfig (stringConfiguration (solarPanelsCount scenario1)) = ''2x2'' \<and>
   title (generateChecklistItems scenario1 ! 3) = ''String Box CC 2x1'' \<and>
   9 \<le> solarPanelsCount scenario2 \<and> solarPanelsCount scenario2 \<le> 200 \<and>
   numberOfStrings (stringConfiguration (solarPanelsCount scenario2)) = 3 \<and>
   stringConfig (stringConfiguration (solarPanelsCount scenario2)) = ''3x3'' \<and>
   title (generateChecklistItems scenario2 ! 3) = ''String Box CC 3x1''"
  using string_count_threshold [of scenario1] string_count_threshold [of scenario2]
  by (simp add: scenario_simps)

text \<open>
  Claim C3 (power floor). A project whose inverter power is below 3.0 gets exactly the
  checklist of a project with the same panel count and roof type whose inverter power is
  3.0: every item, hence every quantity derived from the power, agrees.
\<close>

theorem power_floor:
  fixes p :: "'a project_scheme" and q :: "'b project_scheme"
  assumes "js_lt (parseFloat (inverterPower p)) (Fin 3.0)"
    and "parseFloat (inverterPower q) = Fin 3.0"
    and "solarPanelsCount p = solarPanelsCount q"
    and "roofType p = roofType q"
  shows "generateChecklistItems p = generateChecklistItems q"
proof -
  have "Math_max (parseFloat (inverterPower p)) (Fin 3) = Fin 3"
    using assms(1) by (simp add: Math_max_floor)
  moreover have "Math_max (parseFloat (inverterPower q)) (Fin 3) = Fin 3"
    using assms(2) by simp
  ultimately show ?thesis
    unfolding generateChecklistItems_def using assms(3,4) by simp
qed

theorem power_floor_witness:
  "js_lt (parseFloat (inverterPower (scenario1\<lparr>inverterPower := ''2.5''\<rparr>))) (Fin 3.0) \<and>
   parseFloat (inverterPower (scenario1\<lparr>inverterPower := ''3.0''\<rparr>)) = Fin 3.0 \<and>
   generateChecklistItems (scenario1\<lparr>inverterPower := ''2.5''\<rparr>) =
     generateChecklistItems (scenario1\<lparr>inverterPower := ''3.0''\<rparr>)"
  using power_floor [of "scenario1\<lparr>inverterPower := ''2.5''\<rparr>" "scenario1\<lparr>inverterPower := ''3.0''\<rparr>"]
  by (simp add: parseFloat_examples)

text \<open>
  Claim C4 (breaker tiers). The breaker rating is a step function of the adjusted power with
  strict boundaries: 32 up to and including 5, 40 above 5 up to and including 8, 50 above 8;
  so 5.0 gives 32, 5.01 gives 40, 8.0 gives 40 and 8.01 gives 50. The rating printed in the
  title of the breaker item is the rating of the adjusted power of the project.
\<close>

theorem breaker_tiers:
  "(js_le a (Fin 5) \<longrightarrow> breakerCurrent a = 32) \<and>
   (js_gt a (Fin 5) \<and> js_le a (Fin 8) \<longrightarrow> breakerCurrent a = 40) \<and>
   (js_gt a (Fin 8) \<longrightarrow> breakerCurrent a = 50) \<and>
   breakerCurrent (Fin 5.0) = 32 \<and> breakerCurrent (Fin 5.01) = 40 \<and>
   breakerCurrent (Fin 8.0) = 40 \<and> breakerCurrent (Fin 8.01) = 50 \<and>
   title (generateChecklistItems p ! 5) =
     ''Disjuntor CA '' @
     toString (breakerCurrent (Math_max (parseFloat (inverterPower p)) (Fin 3.0))) @ ''A''"
proof -
  have "js_le a (Fin 5) \<longrightarrow> breakerCurrent a = 32"
    by (cases a) (auto simp: breakerCurrent_eq js_gt_def)
  moreover have "js_gt a (Fin 5) \<and> js_le a (Fin 8) \<longrightarrow> breakerCurrent a = 40"
    by (cases a) (auto simp: breakerCurrent_eq js_gt_def)
  moreover have "js_gt a (Fin 8) \<longrightarrow> breakerCurrent a = 50"
    by (simp add: breakerCurrent_eq)
  moreover have "breakerCurrent (Fin 5.0) = 32 \<and> breakerCurrent (Fin 5.01) = 40 \<and>
      breakerCurrent (Fin 8.0) = 40 \<and> breakerCurrent (Fin 8.01) = 50"
    by (simp add: breakerCurrent_eq js_gt_def)
  ultimately show ?thesis
    using breaker_title [of p] by simp
qed

theorem breaker_tiers_witness:
  "js_le (Math_max (parseFloat (inverterPower scenario1)) (Fin 3.0)) (Fin 5) \<and>
   title (generateChecklistItems scenario1 ! 5) = ''Disjuntor CA 32A'' \<and>
   js_gt (Math_max (parseFloat (inverterPower scenario2)) (Fin 3.0)) (Fin 5) \<and>
   js_le (Math_max (parseFloat (inverterPower scenario2)) (Fin 3.0)) (Fin 8) \<and>
   title (generateChecklistItems scenario2 ! 5) = ''Disjuntor CA 40A'' \<and>
   js_gt (Math_max (parseFloat (inverterPower scenario3)) (Fin 3.0)) (Fin 8) \<and>
   title (generateChecklistItems scenario3 ! 5) = ''Disjuntor CA 50A'' \<and>
   title (generateChecklistItems (scenario1\<lparr>inverterPower := ''5.0000000000000001''\<rparr>) ! 5) =
     ''Disjuntor CA 32A'' \<and>
   title (generateChecklistItems (scenario1\<lparr>inverterPower := ''8.0000000000000001''\<rparr>) ! 5) =
     ''Disjuntor CA 40A''"
  using
    breaker_tiers [of "Math_max (parseFloat (inverterPower scenario1)) (Fin 3.0)" scenario1]
    breaker_tiers [of "Math_max (parseFloat (inverterPower scenario2)) (Fin 3.0)" scenario2]
    breaker_tiers [of "Math_max (parseFloat (inverterPower scenario3)) (Fin 3.0)" scenario3]
    breaker_tiers [of "Fin 5" "scenario1\<lparr>inverterPower := ''5.0000000000000001''\<rparr>"]
    breaker_tiers [of "Fin 8" "scenario1\<lparr>inverterPower := ''8.0000000000000001''\<rparr>"]
  by (simp add: scenario_simps parseFloat_examples js_gt_def toString_examples)



text \<open>
  Claim C6 (metal roof). On a metal roof the first structure item counts
  \<open>\<lceil>fixationPoints * 0.7\<rceil>\<close> trapezoidal clamps and the fourth counts \<open>fixationPoints * 2\<close>
  self-tapping screws, where \<open>fixationPoints = \<lceil>panelCount * 1.2\<rceil>\<close>; 20 panels give 24
  fixation points and 17 clamps.
\<close>

theorem metal_roof_quantities:
  assumes "roofType p = ''metalico''"
  shows "title (generateChecklistItems p ! 7) =
      ''Grampos Trapezoidais ('' @
      toString \<lceil>rat_of_int \<lceil>rat_of_int (solarPanelsCount p) * 1.2\<rceil> * 0.7\<rceil> @ '' un)'' \<and>
    title (generateChecklistItems p ! 10) =
      ''Parafusos Autoperfurantes ('' @
      toString (\<lceil>rat_of_int (solarPanelsCount p) * 1.2\<rceil> * 2) @ '' un)'' \<and>
    (solarPanelsCount p = 20 \<longrightarrow>
      \<lceil>rat_of_int (solarPanelsCount p) * 1.2\<rceil> = 24 \<and>
      title (generateChecklistItems p ! 7) = ''Grampos Trapezoidais (17 un)'')"
proof -
  let ?s = "getStructureItems (roofType p) (solarPanelsCount p)
       (numberOfStrings (stringConfiguration (solarPanelsCount p)))"
  have n: "generateChecklistItems p ! (7 + i) = ?s ! i" if "i < 4" for i
  proof -
    have "7 + i \<le> length (generateChecklistItems p)"
      using that assms by (simp add: length_generate length_structure)
    then have "drop 7 (generateChecklistItems p) ! i = generateChecklistItems p ! (7 + i)"
      by simp
    then show ?thesis by (simp add: drop_generate)
  qed
  have a: "title (generateChecklistItems p ! 7) =
      ''Grampos Trapezoidais ('' @
      toString \<lceil>rat_of_int \<lceil>rat_of_int (solarPanelsCount p) * 1.2\<rceil> * 0.7\<rceil> @ '' un)''"
    using n [of 0] assms by (simp add: getStructureItems_def Let_def ceil_def)
  have b: "title (generateChecklistItems p ! 10) =
      ''Parafusos Autoperfurantes ('' @
      toString (\<lceil>rat_of_int (solarPanelsCount p) * 1.2\<rceil> * 2) @ '' un)''"
    using n [of 3] assms by (simp add: getStructureItems_def Let_def ceil_def)
  have c: "\<lceil>rat_of_int 20 * 1.2\<rceil> = 24" "\<lceil>rat_of_int 24 * 0.7\<rceil> = 17"
    by code_simp+
  show ?thesis
    using a b c by (auto simp: toString_examples)
qed

theorem metal_roof_quantities_witness:
  "roofType scenario3 = ''metalico'' \<and> solarPanelsCount scenario3 = 20 \<and>
   title (generateChecklistItems scenario3 ! 7) = ''Grampos Trapezoidais (17 un)''"
proof -
  have r: "roofType scenario3 = ''metalico''"
    by (simp add: scenario_simps)
  have n: "solarPanelsCount scenario3 = 20"
    by (simp add: scenario_simps)
  from metal_roof_quantities [OF r] r n show ?thesis
    by blast
qed

text \<open>
  Claim C7 (one string configuration). For the data given to the generator and a stored
  project with the same panel count, the configuration computed in the generator, the one
  computed in the analysis route and the one computed in the report route are equal: each
  is \<^verbatim>\<open>3x3\<close> above 8 panels and \<^verbatim>\<open>2x2\<close> otherwise.
\<close>

theorem string_config_agrees:
  fixes p :: "'a project_scheme" and q :: "'b project_scheme"
  assumes "solarPanelsCount p = solarPanelsCount q"
  shows "stringConfig (stringConfiguration (solarPanelsCount p)) = analyzeStringConfig q \<and>
    stringConfig (stringConfiguration (solarPanelsCount p)) = reportStringConfig q \<and>
    analyzeStringConfig q = (if solarPanelsCount p > 8 then ''3x3'' else ''2x2'')"
  using assms
  by (simp add: stringConfiguration_def analyzeStringConfig_def reportStringConfig_def Let_def)

theorem string_config_agrees_witness:
  "solarPanelsCount scenario2 = solarPanelsCount (scenario2\<lparr>name := ''Stored''\<rparr>) \<and>
   stringConfig (stringConfiguration (solarPanelsCount scenario2)) =
     analyzeStringConfig (scenario2\<lparr>name := ''Stored''\<rparr>) \<and>
   stringConfig (stringConfiguration (solarPanelsCount scenario2)) =
     reportStringConfig (scenario2\<lparr>name := ''Stored''\<rparr>)"
proof -
  have n: "solarPanelsCount scenario2 = solarPanelsCount (scenario2\<lparr>name := ''Stored''\<rparr>)"
    by simp
  from string_config_agrees [OF n] n show ?thesis
    by blast
qed

text \<open>
  Claim C8 (category order). In the generated list every safety item stands before every
  item of electrical materials, and every item of electrical materials before every
  structure item.
\<close>

theorem category_emission_order:
  assumes "i < length (generateChecklistItems p)" and "j < length (generateChecklistItems p)"
  shows
    "(category (generateChecklistItems p ! i) = ''seguranca'' \<and>
      category (generateChecklistItems p ! j) = ''materiais_eletricos'' \<longrightarrow> i < j) \<and>
     (category (generateChecklistItems p ! i) = ''materiais_eletricos'' \<and>
      category (generateChecklistItems p ! j) = ''estrutura'' \<longrightarrow> i < j) \<and>
     (category (generateChecklistItems p ! i) = ''seguranca'' \<and>
      category (generateChecklistItems p ! j) = ''estrutura'' \<longrightarrow> i < j)"
  using assms by (auto simp: category_nth split: if_splits)

theorem category_emission_order_witness:
  "1 < length (generateChecklistItems scenario1) \<and>
   7 < length (generateChecklistItems scenario1) \<and>
   category (generateChecklistItems scenario1 ! 1) = ''materiais_eletricos'' \<and>
   category (generateChecklistItems scenario1 ! 7) = ''estrutura'' \<and>
   (1::nat) < 7"
proof -
  have l: "length (generateChecklistItems scenario1) = 11"
    by (simp add: length_generate length_structure scenario_simps)
  have a: "1 < length (generateChecklistItems scenario1)"
    and b: "7 < length (generateChecklistItems scenario1)"
    by (simp_all add: l)
  have c: "category (generateChecklistItems scenario1 ! 1) = ''materiais_eletricos''"
    and d: "category (generateChecklistItems scenario1 ! 7) = ''estrutura''"
    by (simp_all add: category_nth l)
  from category_emission_order [OF a b] a b c d show ?thesis
    by blast
qed

text \<open>
  Claim C9 (three fields only). Two projects that agree on the roof type, the inverter power
  and the panel count get the same checklist, whatever their other fields hold: name,
  address, phone, installer, platform credentials and any further field.
\<close>

theorem depends_on_three_fields:
  fixes p :: "'a project_scheme" and q :: "'b project_scheme"
  assumes "roofType p = roofType q"
    and "inverterPower p = inverterPower q"
    and "solarPanelsCount p = solarPanelsCount q"
  shows "generateChecklistItems p = generateChecklistItems q"
  unfolding generateChecklistItems_def using assms by simp

theorem depends_on_three_fields_witness:
  "roofType scenario1 = roofType (scenario1\<lparr>name := ''Outro'', address := Some ''Rua A'', platformPassword := Some ''x''\<rparr>) \<and>
   inverterPower scenario1 = inverterPower (scenario1\<lparr>name := ''Outro'', address := Some ''Rua A'', platformPassword := Some ''x''\<rparr>) \<and>
   solarPanelsCount scenario1 = solarPanelsCount (scenario1\<lparr>name := ''Outro'', address := Some ''Rua A'', platformPassword := Some ''x''\<rparr>) \<and>
   scenario1 \<noteq> scenario1\<lparr>name := ''Outro'', address := Some ''Rua A'', platformPassword := Some ''x''\<rparr> \<and>
   generateChecklistItems scenario1 =
     generateChecklistItems (scenario1\<lparr>name := ''Outro'', address := Some ''Rua A'', platformPassword := Some ''x''\<rparr>)"
  using depends_on_three_fields [of scenario1 "scenario1\<lparr>name := ''Outro'', address := Some ''Rua A'', platformPassword := Some ''x''\<rparr>"]
  by (simp add: scenario1_def)

text \<open>
  Claim C10 (item counts). There are 4 structure items for the ceramic, metal and ground
  roof types and 5 for fibre cement, for every panel count and number of strings; the whole
  checklist has 11 items for the first three roof types and 12 for fibre cement.
\<close>

theorem item_counts:
  "length (getStructureItems ''ceramico'' n k) = 4 \<and>
   length (getStructureItems ''metalico'' n k) = 4 \<and>
   length (getStructureItems ''solo'' n k) = 4 \<and>
   length (getStructureItems ''fibrocimento'' n k) = 5 \<and>
   (roofType p \<in> {''ceramico'', ''metalico'', ''solo''} \<longrightarrow>
      length (generateChecklistItems p) = 11) \<and>
   (roofType p = ''fibrocimento'' \<longrightarrow> length (generateChecklistItems p) = 12)"
  by (auto simp: length_generate length_structure)

theorem item_counts_witness:
  "roofType scenario1 \<in> {''ceramico'', ''metalico'', ''solo''} \<and>
   length (generateChecklistItems scenario1) = 11 \<and>
   roofType (scenario1\<lparr>roofType := ''fibrocimento''\<rparr>) = ''fibrocimento'' \<and>
   length (generateChecklistItems (scenario1\<lparr>roofType := ''fibrocimento''\<rparr>)) = 12"
  using item_counts [of 6 2 scenario1]
    item_counts [of 6 2 "scenario1\<lparr>roofType := ''fibrocimento''\<rparr>"]
  by (simp add: scenario_simps)

end
